theory Spec2Isabelle
  imports Complex_Main
begin

section \<open>JavaScript values used by the plotting helpers\<close>

text \<open>
  The functions \<^verbatim>\<open>split_unit\<close>, \<^verbatim>\<open>unicode_superscript\<close>, \<^verbatim>\<open>unicode_unit\<close> and
  \<^verbatim>\<open>render_plot\<close> of \<^verbatim>\<open>src/topobank/static/js/project.js\<close> are embedded here.

  A JavaScript string is modelled as the list of its code points. \<^verbatim>\<open>for (var c of s)\<close>
  walks a string by code point and \<^verbatim>\<open>s.split('')\<close> by UTF-16 code unit; every key of the
  dictionaries below is one code unit outside the surrogate range, so both walks treat a
  character outside the basic plane the same way (it is in no dictionary and is copied).
  A value that may be \<^verbatim>\<open>undefined\<close> is an \<open>option\<close>, with \<open>None\<close> for \<^verbatim>\<open>undefined\<close>.
\<close>

type_synonym jschar = nat
type_synonym jsstring = "jschar list"

definition chr :: "char \<Rightarrow> jschar" where
  "chr c = of_char c"

definition ascii :: "string \<Rightarrow> jsstring" where
  "ascii s = map chr s"

text \<open>Truthiness of a value that is a string or \<^verbatim>\<open>undefined\<close>: only a non-empty string is truthy.\<close>

definition truthy :: "jsstring option \<Rightarrow> bool" where
  "truthy v = (case v of None \<Rightarrow> False | Some s \<Rightarrow> s \<noteq> [])"

text \<open>The characters of such a value; \<^verbatim>\<open>undefined\<close> has none.\<close>

definition chars_of :: "jsstring option \<Rightarrow> jsstring" where
  "chars_of v = (case v of None \<Rightarrow> [] | Some s \<Rightarrow> s)"

text \<open>
  The exponent of a unit is a JavaScript Number that \<^verbatim>\<open>parseInt\<close> produced, or the literal
  \<^verbatim>\<open>1\<close>. \<open>IntVal n\<close> is the integer \<open>n\<close>; it stands for a Number only when \<open>n\<close> is a safe
  integer, \<open>\<bar>n\<bar> \<le> 2^53 - 1\<close>, where Numbers are exact. \<open>Beyond m\<close> is the Number that the
  built-in makes of an integer \<open>m\<close> outside that range: \<open>m\<close> rounded to the nearest double,
  which is \<^verbatim>\<open>Infinity\<close> or \<^verbatim>\<open>-Infinity\<close> from \<open>2^1024\<close> on. The model keeps the integer
  that was read and does not compute the rounded value. Negative zero is \<open>IntVal 0\<close>: it
  prints as \<^verbatim>\<open>0\<close> and is not \<^verbatim>\<open>== 1\<close>, like zero.
\<close>

datatype jsnumber = IntVal int | NaN | Beyond int

definition safe_integer :: "int \<Rightarrow> bool" where
  "safe_integer n \<longleftrightarrow> \<bar>n\<bar> \<le> 2 ^ 53 - 1"

definition to_number :: "int \<Rightarrow> jsnumber" where
  "to_number m = (if safe_integer m then IntVal m else Beyond m)"

definition is_digit :: "jschar \<Rightarrow> bool" where
  "is_digit c \<longleftrightarrow> 0x30 \<le> c \<and> c \<le> 0x39"

definition digits_value :: "jsstring \<Rightarrow> nat" where
  "digits_value z = foldl (\<lambda>acc c. 10 * acc + (c - 0x30)) 0 z"

text \<open>
  The built-in \<^verbatim>\<open>parseInt(string)\<close> with no radix reads an optional sign, then the longest
  run of decimal digits; whatever follows the run is ignored. It returns \<^verbatim>\<open>NaN\<close> when the
  run is empty and otherwise the Number of the integer it has read. Its argument in
  \<^verbatim>\<open>split_unit\<close> is made of the characters \<^verbatim>\<open>0-9 + - .\<close> only, so the trimming of white
  space and the \<^verbatim>\<open>0x\<close> prefix of the built-in never apply.
\<close>

definition leading_integer :: "jsstring \<Rightarrow> int option" where
  "leading_integer s =
     (let sign = (case s of [] \<Rightarrow> 1 | c # _ \<Rightarrow> if c = chr CHR ''-'' then - 1 else (1::int));
          S = (case s of [] \<Rightarrow> []
               | c # cs \<Rightarrow> if c = chr CHR ''+'' \<or> c = chr CHR ''-'' then cs else s);
          Z = takeWhile is_digit S
      in if Z = [] then None else Some (sign * int (digits_value Z)))"

definition parseInt :: "jsstring \<Rightarrow> jsnumber" where
  "parseInt s = (case leading_integer s of None \<Rightarrow> NaN | Some m \<Rightarrow> to_number m)"

text \<open>
  The string of a Number, as \<^verbatim>\<open>unit + exponent\<close> builds it: for a safe integer its decimal
  digits, with a leading \<^verbatim>\<open>-\<close> when negative, and \<^verbatim>\<open>NaN\<close> for \<^verbatim>\<open>NaN\<close>. Outside the safe
  integers the built-in prints the digits of the rounded value, in exponent notation from
  \<open>10^21\<close> on, or \<^verbatim>\<open>Infinity\<close>; that string is a parameter, a function of the integer.
\<close>

fun decimal :: "nat \<Rightarrow> jsstring" where
  "decimal n = (if n < 10 then [0x30 + n] else decimal (n div 10) @ [0x30 + n mod 10])"

definition integer_string :: "int \<Rightarrow> jsstring" where
  "integer_string n = (if n < 0 then chr CHR ''-'' # decimal (nat (- n)) else decimal (nat n))"

definition number_to_string :: "(int \<Rightarrow> jsstring) \<Rightarrow> jsnumber \<Rightarrow> jsstring" where
  "number_to_string beyond_string v =
     (case v of
        NaN \<Rightarrow> ascii ''NaN''
      | Beyond m \<Rightarrow> beyond_string m
      | IntVal n \<Rightarrow> if safe_integer n then integer_string n else beyond_string n)"

section \<open>The unit parser\<close>

record parsed_unit =
  unit :: "jsstring option"
  exponent :: jsnumber

text \<open>
  The dictionary of \<^verbatim>\<open>split_unit\<close>, from a superscript glyph to its ASCII character:
  \<^verbatim>\<open>U+2070\<close>, \<^verbatim>\<open>U+00B9\<close>, \<^verbatim>\<open>U+00B2\<close>, \<^verbatim>\<open>U+00B3\<close>, \<^verbatim>\<open>U+2074\<close> to \<^verbatim>\<open>U+2079\<close> for the digits,
  \<^verbatim>\<open>U+207A\<close> and \<^verbatim>\<open>U+207B\<close> for the signs, \<^verbatim>\<open>U+22C5\<close> (dot operator) for the point.
\<close>

definition split_unit_dict :: "(jschar \<times> jschar) list" where
  "split_unit_dict =
     [(0x2070, chr CHR ''0''), (0xB9, chr CHR ''1''), (0xB2, chr CHR ''2''),
      (0xB3, chr CHR ''3''), (0x2074, chr CHR ''4''), (0x2075, chr CHR ''5''),
      (0x2076, chr CHR ''6''), (0x2077, chr CHR ''7''), (0x2078, chr CHR ''8''),
      (0x2079, chr CHR ''9''), (0x207A, chr CHR ''+''), (0x207B, chr CHR ''-''),
      (0x22C5, chr CHR ''.'')]"

text \<open>
  The loop of \<^verbatim>\<open>split_unit\<close>: a character of the dictionary adds its ASCII value to the
  exponent string, any other character is added to the unit string. (The operator
  \<^verbatim>\<open>in\<close> also finds the properties that an object inherits; none of them has a name of
  one character, so \<^verbatim>\<open>c in dict\<close> is the lookup of the key, here and in the style loop.)
\<close>

fun split_unit_loop :: "jsstring \<Rightarrow> jsstring \<times> jsstring \<Rightarrow> jsstring \<times> jsstring" where
  "split_unit_loop [] (unit_acc, exponent_acc) = (unit_acc, exponent_acc)"
| "split_unit_loop (c # cs) (unit_acc, exponent_acc) =
     (case map_of split_unit_dict c of
        Some a \<Rightarrow> split_unit_loop cs (unit_acc, exponent_acc @ [a])
      | None \<Rightarrow> split_unit_loop cs (unit_acc @ [c], exponent_acc))"

definition split_unit :: "jsstring option \<Rightarrow> parsed_unit" where
  "split_unit unit_str =
     (if \<not> truthy unit_str then \<lparr>unit = None, exponent = IntVal 1\<rparr>
      else case split_unit_loop (chars_of unit_str) ([], []) of
        (unit_acc, exponent_acc) \<Rightarrow>
          \<lparr>unit = Some unit_acc,
           exponent = (if exponent_acc \<noteq> [] then parseInt exponent_acc else IntVal 1)\<rparr>)"

text \<open>The dictionary of \<^verbatim>\<open>unicode_superscript\<close>, from an ASCII character to its glyph.\<close>

definition unicode_superscript_dict :: "(jschar \<times> jschar) list" where
  "unicode_superscript_dict =
     [(chr CHR ''0'', 0x2070), (chr CHR ''1'', 0xB9), (chr CHR ''2'', 0xB2),
      (chr CHR ''3'', 0xB3), (chr CHR ''4'', 0x2074), (chr CHR ''5'', 0x2075),
      (chr CHR ''6'', 0x2076), (chr CHR ''7'', 0x2077), (chr CHR ''8'', 0x2078),
      (chr CHR ''9'', 0x2079), (chr CHR ''+'', 0x207A), (chr CHR ''-'', 0x207B),
      (chr CHR ''.'', 0x22C5)]"

definition unicode_superscript :: "jsstring \<Rightarrow> jsstring" where
  "unicode_superscript s =
     map (\<lambda>c. case map_of unicode_superscript_dict c of Some g \<Rightarrow> g | None \<Rightarrow> c) s"

text \<open>
  \<^verbatim>\<open>unicode_unit(unit, exponent)\<close>; the first argument is the parameter of
  \<open>number_to_string\<close>.
\<close>

definition unicode_unit :: "(int \<Rightarrow> jsstring) \<Rightarrow> jsstring \<Rightarrow> jsnumber \<Rightarrow> jsstring" where
  "unicode_unit beyond_string unit_arg exponent_arg =
     (if exponent_arg = IntVal 1 then unit_arg
      else unicode_superscript (unit_arg @ number_to_string beyond_string exponent_arg))"

text \<open>
  The characters that \<^verbatim>\<open>unicode_superscript\<close> rewrites (the keys of its dictionary) and
  the glyphs that \<^verbatim>\<open>split_unit\<close> takes for the exponent (the keys of its own).
\<close>

definition superscriptable :: "jschar \<Rightarrow> bool" where
  "superscriptable c \<longleftrightarrow> map_of unicode_superscript_dict c \<noteq> None"

definition superscript_glyph :: "jschar \<Rightarrow> bool" where
  "superscript_glyph c \<longleftrightarrow> map_of split_unit_dict c \<noteq> None"

text \<open>
  The exponent string that \<^verbatim>\<open>split_unit\<close> accumulates from its input, and the strings
  on which \<^verbatim>\<open>parseInt\<close> finds a number: an optional sign followed by a digit.
\<close>

definition exponent_digits :: "jsstring \<Rightarrow> jsstring" where
  "exponent_digits s = List.map_filter (map_of split_unit_dict) s"

definition starts_with_integer :: "jsstring \<Rightarrow> bool" where
  "starts_with_integer s =
     (case s of
        [] \<Rightarrow> False
      | c # cs \<Rightarrow>
          is_digit c \<or>
          ((c = chr CHR ''+'' \<or> c = chr CHR ''-'') \<and>
           (case cs of [] \<Rightarrow> False | d # _ \<Rightarrow> is_digit d)))"

section \<open>The series renderer\<close>

text \<open>
  \<^verbatim>\<open>render_plot(element, plot_descr_array, unit)\<close> builds the components of one chart.
  The model keeps what the function computes (the local variables that end up in the chart)
  and leaves out the document: the destruction of an earlier chart and the drawing calls.
  The two axis objects hold nothing but their scale and are not kept apart from it.

  Arithmetic on Numbers and the unit-conversion library (\<^verbatim>\<open>convert\<close>, not part of the
  sources) are parameters: the type \<open>'n\<close> stands for the Numbers, and a record gives the
  literal \<^verbatim>\<open>1\<close>, \<^verbatim>\<open>NaN\<close>, the operators \<^verbatim>\<open>*\<close> and \<^verbatim>\<open>**\<close>, and
  \<^verbatim>\<open>convert(1).from(a).to(b)\<close>, which is \<open>None\<close> when the library throws. The record
  also holds the parameter of \<open>number_to_string\<close>, the string of a Number outside the safe
  integers, which the axis labels need.
\<close>

record 'n externals =
  one :: 'n
  nan :: 'n
  times :: "'n \<Rightarrow> 'n \<Rightarrow> 'n"
  pow :: "'n \<Rightarrow> jsnumber \<Rightarrow> 'n"
  convert :: "jsstring option \<Rightarrow> jsstring \<Rightarrow> 'n option"
  large_number_string :: "int \<Rightarrow> jsstring"

record 'n series =
  series_name :: jsstring
  series_x :: "'n list"
  series_y :: "'n list"
  series_style :: "jsstring option"

record 'n plot_descr =
  xlabel :: jsstring
  ylabel :: jsstring
  xunit :: "jsstring option"
  yunit :: "jsstring option"
  xscale :: "jsstring option"
  yscale :: "jsstring option"
  series :: "'n series list"

text \<open>
  The three exceptions: the \<^verbatim>\<open>TypeError\<close> on different base units, whatever
  \<^verbatim>\<open>convert\<close> throws, and the \<^verbatim>\<open>TypeError\<close> on a style string, which carries the string.
\<close>

datatype error = UnitMismatchError | UnconvertibleUnitError | StyleParseError jsstring

datatype symbol_factory = Circle | Cross | Diamond | Square | Triangle | Wye

datatype scale = Log | Linear

text \<open>
  An attribute of a plot is a constant colour (\<^verbatim>\<open>attr('stroke', color)\<close>) or the series
  name sent through the colour scale (\<^verbatim>\<open>attr('stroke', item.name, color_scale)\<close>).
  A data point \<^verbatim>\<open>{x: .., y: ..}\<close> is a pair.
\<close>

datatype paint = Constant jsstring | Scaled jsstring

datatype 'n plot =
  Line (dataset: "('n \<times> 'n) list") (stroke: paint)
| Scatter (dataset: "('n \<times> 'n) list") (symbol: symbol_factory) (stroke: paint) (fill: paint)

definition color_abbreviations :: "(jschar \<times> jsstring) list" where
  "color_abbreviations = [(chr CHR ''k'', ascii ''black''), (chr CHR ''r'', ascii ''red'')]"

definition symbol_factories :: "(jschar \<times> symbol_factory) list" where
  "symbol_factories =
     [(chr CHR ''o'', Circle), (chr CHR ''+'', Cross), (chr CHR ''d'', Diamond),
      (chr CHR ''s'', Square), (chr CHR ''^'', Triangle), (chr CHR ''y'', Wye)]"

text \<open>
  The local variables of \<^verbatim>\<open>render_plot\<close> that live across the loop over the descriptors.
  \<open>display_unit\<close> is the parameter \<^verbatim>\<open>unit\<close>; \<open>color_scale\<close> holds the domain of the colour
  scale; the labels hold the text of the label components.
\<close>

record 'n render_state =
  display_unit :: "jsstring option"
  x_scale :: "scale option"
  y_scale :: "scale option"
  x_axis_label :: "jsstring option"
  y_axis_label :: "jsstring option"
  color_scale :: "jsstring list option"
  plots :: "'n plot list"
  symbols :: "symbol_factory option list"

definition initial_state :: "jsstring option \<Rightarrow> 'n render_state" where
  "initial_state unit_arg =
     \<lparr>display_unit = unit_arg, x_scale = None, y_scale = None, x_axis_label = None,
      y_axis_label = None, color_scale = None, plots = [], symbols = []\<rparr>"

text \<open>
  \<^verbatim>\<open>if (!unit) unit = xunit.unit\<close>, then the scale factors: \<^verbatim>\<open>1\<close> unless \<^verbatim>\<open>unit\<close> is
  truthy, otherwise the conversion ratio raised to each exponent.
\<close>

definition resolve_unit :: "jsstring option \<Rightarrow> parsed_unit \<Rightarrow> jsstring option" where
  "resolve_unit unit_arg xu = (if \<not> truthy unit_arg then unit xu else unit_arg)"

definition scale_factors ::
  "'n externals \<Rightarrow> jsstring option \<Rightarrow> parsed_unit \<Rightarrow> parsed_unit \<Rightarrow> error + ('n \<times> 'n)" where
  "scale_factors ext unit_arg xu yu =
     (case unit_arg of
        None \<Rightarrow> Inr (one ext, one ext)
      | Some u \<Rightarrow>
          if u = [] then Inr (one ext, one ext)
          else
            (case convert ext (unit xu) u of
               None \<Rightarrow> Inl UnconvertibleUnitError
             | Some scale_factor \<Rightarrow>
                 Inr (pow ext scale_factor (exponent xu),
                      pow ext scale_factor (exponent yu))))"

text \<open>
  The text of an axis label: the descriptor's label, followed by the formatted display unit
  in parentheses when the axis has a base unit. A truthy base unit makes \<^verbatim>\<open>unit\<close> truthy
  (it was set from it if it was not before), so \<^verbatim>\<open>unit\<close> is a string there.
\<close>

definition axis_label_text ::
  "'n externals \<Rightarrow> jsstring \<Rightarrow> jsstring option \<Rightarrow> parsed_unit \<Rightarrow> jsstring" where
  "axis_label_text ext label unit_arg pu =
     (case unit_arg of
        None \<Rightarrow> label
      | Some u \<Rightarrow>
          if truthy (unit pu)
          then label @ ascii '' ('' @
               unicode_unit (large_number_string ext) u (exponent pu) @ ascii '')''
          else label)"

definition make_scale :: "jsstring option \<Rightarrow> scale" where
  "make_scale s = (if s = Some (ascii ''log'') then Log else Linear)"

text \<open>
  The data set of a series: \<^verbatim>\<open>item.y.map(function (value, index) {...}, item.x)\<close>.
  It has one point for each element of \<^verbatim>\<open>y\<close>; where \<^verbatim>\<open>x\<close> is shorter, \<^verbatim>\<open>this[index]\<close> is
  \<^verbatim>\<open>undefined\<close> and the product is \<^verbatim>\<open>NaN\<close>.
\<close>

definition make_dataset :: "'n externals \<Rightarrow> 'n \<Rightarrow> 'n \<Rightarrow> 'n series \<Rightarrow> ('n \<times> 'n) list" where
  "make_dataset ext scale_factor_x scale_factor_y item =
     map (\<lambda>(index, v).
            (if index < length (series_x item)
             then times ext scale_factor_x (series_x item ! index) else nan ext,
             times ext scale_factor_y v))
         (enumerate 0 (series_y item))"

text \<open>
  The loop over the characters of the style string, on the variables \<^verbatim>\<open>line\<close>,
  \<^verbatim>\<open>color\<close> and \<^verbatim>\<open>symbol\<close>. The first argument is the whole string, for the message.
\<close>

fun style_loop ::
  "jsstring \<Rightarrow> jsstring \<Rightarrow> bool \<times> jsstring option \<times> symbol_factory option \<Rightarrow>
   error + (bool \<times> jsstring option \<times> symbol_factory option)" where
  "style_loop style [] (line, color, marker) = Inr (line, color, marker)"
| "style_loop style (c # cs) (line, color, marker) =
     (if c = chr CHR ''-'' then style_loop style cs (True, color, marker)
      else case map_of color_abbreviations c of
        Some col \<Rightarrow> style_loop style cs (line, Some col, marker)
      | None \<Rightarrow>
          (case map_of symbol_factories c of
             Some factory \<Rightarrow> style_loop style cs (line, color, Some factory)
           | None \<Rightarrow> Inl (StyleParseError style)))"

text \<open>
  The body of \<^verbatim>\<open>plot_descr.series.forEach\<close> for one series: the plots it pushes (a line,
  then a scatter plot) and the entry it pushes on \<^verbatim>\<open>symbols\<close>.
\<close>

definition effective_style :: "jsstring option \<Rightarrow> jsstring" where
  "effective_style s = (if truthy s then chars_of s else ascii ''k-'')"

definition series_plots ::
  "'n externals \<Rightarrow> 'n \<Rightarrow> 'n \<Rightarrow> 'n series \<Rightarrow> error + ('n plot list \<times> symbol_factory option)" where
  "series_plots ext scale_factor_x scale_factor_y item =
     (let style = effective_style (series_style item);
          data = make_dataset ext scale_factor_x scale_factor_y item
      in case style_loop style style (False, None, None) of
           Inl e \<Rightarrow> Inl e
         | Inr (line, color, marker) \<Rightarrow>
             (let attr = (case color of Some col \<Rightarrow> Constant col
                          | None \<Rightarrow> Scaled (series_name item))
              in Inr ((if line then [Line data attr] else []) @
                      (case marker of Some factory \<Rightarrow> [Scatter data factory attr attr]
                       | None \<Rightarrow> []),
                      marker)))"

text \<open>
  The plots that the body pushes for one series (none when the style string throws), and
  the characters that the style loop accepts.
\<close>

definition pushed_plots :: "'n externals \<Rightarrow> 'n \<Rightarrow> 'n \<Rightarrow> 'n series \<Rightarrow> 'n plot list" where
  "pushed_plots ext scale_factor_x scale_factor_y item =
     (case series_plots ext scale_factor_x scale_factor_y item of
        Inl e \<Rightarrow> []
      | Inr (ps, marker) \<Rightarrow> ps)"

definition style_token :: "jschar \<Rightarrow> bool" where
  "style_token c \<longleftrightarrow>
     c = chr CHR ''-'' \<or> map_of color_abbreviations c \<noteq> None \<or> map_of symbol_factories c \<noteq> None"

fun series_forEach ::
  "'n externals \<Rightarrow> 'n \<Rightarrow> 'n \<Rightarrow> 'n series list \<Rightarrow> 'n render_state \<Rightarrow> error + 'n render_state" where
  "series_forEach ext sfx sfy [] st = Inr st"
| "series_forEach ext sfx sfy (item # items) st =
     (case series_plots ext sfx sfy item of
        Inl e \<Rightarrow> Inl e
      | Inr (ps, marker) \<Rightarrow>
          series_forEach ext sfx sfy items
            (st\<lparr>plots := plots st @ ps, symbols := symbols st @ [marker]\<rparr>))"

text \<open>
  The body of the loop over \<^verbatim>\<open>plot_descr_array\<close>, for one descriptor. After the check of
  the base units and the choice of \<^verbatim>\<open>unit\<close>, the scales, the axis labels and the colour
  scale are created unless they exist already; then the series are rendered.
\<close>

definition create_components ::
  "'n externals \<Rightarrow> 'n render_state \<Rightarrow> 'n plot_descr \<Rightarrow> jsstring option \<Rightarrow> parsed_unit \<Rightarrow>
   parsed_unit \<Rightarrow> 'n render_state" where
  "create_components ext st plot_descr unit_arg xu yu =
     st\<lparr>display_unit := unit_arg,
        x_scale := (case x_scale st of
                      None \<Rightarrow> Some (make_scale (xscale plot_descr))
                    | Some sc \<Rightarrow> Some sc),
        y_scale := (case y_scale st of
                      None \<Rightarrow> Some (make_scale (yscale plot_descr))
                    | Some sc \<Rightarrow> Some sc),
        x_axis_label := (case x_axis_label st of
                      None \<Rightarrow> Some (axis_label_text ext (xlabel plot_descr) unit_arg xu)
                    | Some l \<Rightarrow> Some l),
        y_axis_label := (case y_axis_label st of
                      None \<Rightarrow> Some (axis_label_text ext (ylabel plot_descr) unit_arg yu)
                    | Some l \<Rightarrow> Some l),
        color_scale := (case color_scale st of
                      None \<Rightarrow> Some (map series_name (series plot_descr))
                    | Some names \<Rightarrow> Some names)\<rparr>"

definition render_descr ::
  "'n externals \<Rightarrow> 'n render_state \<Rightarrow> 'n plot_descr \<Rightarrow> error + 'n render_state" where
  "render_descr ext st plot_descr =
     (let xu = split_unit (xunit plot_descr);
          yu = split_unit (yunit plot_descr)
      in if unit xu \<noteq> unit yu then Inl UnitMismatchError
         else
           (let unit_arg = resolve_unit (display_unit st) xu
            in case scale_factors ext unit_arg xu yu of
                 Inl e \<Rightarrow> Inl e
               | Inr (scale_factor_x, scale_factor_y) \<Rightarrow>
                   series_forEach ext scale_factor_x scale_factor_y (series plot_descr)
                     (create_components ext st plot_descr unit_arg xu yu)))"

fun render_loop ::
  "'n externals \<Rightarrow> 'n render_state \<Rightarrow> 'n plot_descr list \<Rightarrow> error + 'n render_state" where
  "render_loop ext st [] = Inr st"
| "render_loop ext st (plot_descr # rest) =
     (case render_descr ext st plot_descr of
        Inl e \<Rightarrow> Inl e
      | Inr st' \<Rightarrow> render_loop ext st' rest)"

definition render_plot ::
  "'n externals \<Rightarrow> 'n plot_descr list \<Rightarrow> jsstring option \<Rightarrow> error + 'n render_state" where
  "render_plot ext plot_descr_array unit_arg =
     render_loop ext (initial_state unit_arg) plot_descr_array"

section \<open>An environment to run the renderer in\<close>

text \<open>
  For evaluating \<^verbatim>\<open>render_plot\<close> on concrete input: Numbers are exact reals, with \<open>None\<close>
  for \<^verbatim>\<open>NaN\<close>, and the conversion library knows metres and millimetres only and throws
  on every other unit. (Exact reals stand in for the floating-point Numbers; the ratios
  used are not zero, and no exponent of the sample inputs is outside the safe integers,
  where the environment goes on with the exact integer.)
\<close>

definition sample_times :: "real option \<Rightarrow> real option \<Rightarrow> real option" where
  "sample_times a b =
     (case a of None \<Rightarrow> None | Some r \<Rightarrow> (case b of None \<Rightarrow> None | Some q \<Rightarrow> Some (r * q)))"

definition sample_pow :: "real option \<Rightarrow> jsnumber \<Rightarrow> real option" where
  "sample_pow a e =
     (case a of None \<Rightarrow> None | Some r \<Rightarrow> (case e of NaN \<Rightarrow> None | IntVal n \<Rightarrow> Some (r powi n)
         | Beyond m \<Rightarrow> Some (r powi m)))"

definition sample_convert :: "jsstring option \<Rightarrow> jsstring \<Rightarrow> real option option" where
  "sample_convert from_unit to_unit =
     (if from_unit = Some (ascii ''m'') \<and> to_unit = ascii ''m'' then Some (Some 1)
      else if from_unit = Some (ascii ''mm'') \<and> to_unit = ascii ''mm'' then Some (Some 1)
      else if from_unit = Some (ascii ''m'') \<and> to_unit = ascii ''mm'' then Some (Some 1000)
      else if from_unit = Some (ascii ''mm'') \<and> to_unit = ascii ''m'' then Some (Some (1 / 1000))
      else None)"

definition sample_externals :: "real option externals" where
  "sample_externals =
     \<lparr>one = Some 1, nan = None, times = sample_times, pow = sample_pow,
      convert = sample_convert, large_number_string = integer_string\<rparr>"

text \<open>
  A series of two points and a descriptor that holds it, with the units and the style left
  open.
\<close>

definition sample_series :: "jsstring option \<Rightarrow> real option series" where
  "sample_series style_arg =
     \<lparr>series_name = ascii ''a'', series_x = [Some 1, Some 2], series_y = [Some 3, Some 4],
      series_style = style_arg\<rparr>"

definition sample_descr ::
  "jsstring option \<Rightarrow> jsstring option \<Rightarrow> jsstring option \<Rightarrow> real option plot_descr" where
  "sample_descr xunit_arg yunit_arg style_arg =
     \<lparr>xlabel = ascii ''x'', ylabel = ascii ''y'', xunit = xunit_arg, yunit = yunit_arg,
      xscale = None, yscale = None, series = [sample_series style_arg]\<rparr>"

section \<open>What the claims about the renderer speak of\<close>

text \<open>
  The points of a series with every x-coordinate multiplied by one factor and every
  y-coordinate by another.
\<close>

definition rescaled_points :: "'n externals \<Rightarrow> 'n \<Rightarrow> 'n \<Rightarrow> 'n series \<Rightarrow> ('n \<times> 'n) list" where
  "rescaled_points ext fx fy item =
     map (\<lambda>(a, b). (times ext fx a, times ext fy b)) (zip (series_x item) (series_y item))"

text \<open>The base unit of the x-axis of a descriptor.\<close>

definition base_unit :: "'n plot_descr \<Rightarrow> jsstring option" where
  "base_unit d = unit (split_unit (xunit d))"

section \<open>Facts about the unit parser\<close>

declare decimal.simps [simp del]

subsection \<open>The loop of \<^verbatim>\<open>split_unit\<close> and the two dictionaries\<close>

lemma split_unit_loop_eq:
  "split_unit_loop s (u, e) =
     (u @ filter (\<lambda>c. \<not> superscript_glyph c) s, e @ exponent_digits s)"
  by (induction s arbitrary: u e)
     (auto simp: superscript_glyph_def exponent_digits_def)

lemma superscript_char_cases:
  "superscriptable c \<Longrightarrow>
     map_of split_unit_dict
       (case map_of unicode_superscript_dict c of Some g \<Rightarrow> g | None \<Rightarrow> c) = Some c"
  by (simp add: superscriptable_def unicode_superscript_dict_def split_unit_dict_def chr_def
           split: if_splits)

lemma unicode_superscript_append:
  "unicode_superscript (a @ b) = unicode_superscript a @ unicode_superscript b"
  by (simp add: unicode_superscript_def)

lemma unicode_superscript_id:
  "\<forall>c\<in>set u. \<not> superscriptable c \<Longrightarrow> unicode_superscript u = u"
  by (induction u) (auto simp: unicode_superscript_def superscriptable_def)

lemma exponent_digits_superscript:
  "\<forall>c\<in>set n. superscriptable c \<Longrightarrow> exponent_digits (unicode_superscript n) = n"
  by (induction n)
     (auto simp: exponent_digits_def unicode_superscript_def dest: superscript_char_cases)

lemma filter_superscript:
  "\<forall>c\<in>set n. superscriptable c \<Longrightarrow>
     filter (\<lambda>c. \<not> superscript_glyph c) (unicode_superscript n) = []"
  by (induction n)
     (auto simp: unicode_superscript_def superscript_glyph_def dest: superscript_char_cases)

lemma glyphs_of_superscript:
  "\<forall>c\<in>set n. superscriptable c \<Longrightarrow> g \<in> set (unicode_superscript n) \<Longrightarrow> superscript_glyph g"
  by (induction n)
     (auto simp: unicode_superscript_def superscript_glyph_def dest: superscript_char_cases)

lemma exponent_digits_plain:
  "\<forall>c\<in>set u. \<not> superscript_glyph c \<Longrightarrow> exponent_digits u = []"
  by (induction u) (auto simp: exponent_digits_def superscript_glyph_def)

lemma exponent_digits_append:
  "exponent_digits (a @ b) = exponent_digits a @ exponent_digits b"
  by (simp add: exponent_digits_def List.map_filter_def)

subsection \<open>Decimal digits and \<^verbatim>\<open>parseInt\<close>\<close>

lemma decimal_digits: "c \<in> set (decimal n) \<Longrightarrow> is_digit c"
proof (induction n arbitrary: c rule: decimal.induct)
  case (1 n)
  show ?case
  proof (cases "n < 10")
    case True
    with "1.prems" show ?thesis by (simp add: decimal.simps [of n] is_digit_def)
  next
    case False
    have "n mod 10 < 10" by simp
    with False "1.prems" "1.IH" show ?thesis
      by (auto simp: decimal.simps [of n] is_digit_def)
  qed
qed

lemma decimal_nonempty: "decimal n \<noteq> []"
  by (subst decimal.simps) simp

lemma digits_value_snoc: "digits_value (z @ [c]) = 10 * digits_value z + (c - 0x30)"
  by (simp add: digits_value_def)

lemma digits_value_decimal: "digits_value (decimal n) = n"
proof (induction n rule: decimal.induct)
  case (1 n)
  show ?case
  proof (cases "n < 10")
    case True
    then show ?thesis by (simp add: decimal.simps [of n] digits_value_def)
  next
    case False
    with "1.IH" show ?thesis
      by (simp add: decimal.simps [of n] digits_value_snoc)
  qed
qed

lemma is_digit_superscriptable: "is_digit c \<Longrightarrow> superscriptable c"
  unfolding is_digit_def superscriptable_def unicode_superscript_dict_def chr_def
  by simp arith

lemma superscriptable_chars:
  "superscriptable c \<longleftrightarrow> c \<in> set (ascii ''0123456789+-.'')"
  by (auto simp: superscriptable_def unicode_superscript_dict_def ascii_def chr_def
        split: if_splits)

lemma integer_string_superscriptable:
  "c \<in> set (integer_string e) \<Longrightarrow> superscriptable c"
proof -
  have minus: "superscriptable (chr CHR ''-'')"
    by (simp add: superscriptable_def unicode_superscript_dict_def chr_def)
  assume "c \<in> set (integer_string e)"
  then show ?thesis
    using minus
    by (auto simp: integer_string_def dest: decimal_digits is_digit_superscriptable
          split: if_splits)
qed

lemma integer_string_nonempty: "integer_string e \<noteq> []"
  by (simp add: integer_string_def decimal_nonempty)

lemma number_to_string_safe:
  "safe_integer e \<Longrightarrow> number_to_string bs (IntVal e) = integer_string e"
  by (simp add: number_to_string_def)

lemma takeWhile_decimal: "takeWhile is_digit (decimal n) = decimal n"
  by (simp add: decimal_digits)

lemma hd_decimal_digit: "decimal n = c # cs \<Longrightarrow> is_digit c"
  using decimal_digits [of c n] by simp

lemma leading_integer_integer_string: "leading_integer (integer_string e) = Some e"
proof (cases "e < 0")
  case True
  then show ?thesis
    by (simp add: leading_integer_def integer_string_def takeWhile_decimal decimal_nonempty
          digits_value_decimal)
next
  case False
  obtain c cs where dec: "decimal (nat e) = c # cs"
    using decimal_nonempty [of "nat e"] by (cases "decimal (nat e)") auto
  then have "is_digit c" by (rule hd_decimal_digit)
  then have nosign: "c \<noteq> chr CHR ''+''" "c \<noteq> chr CHR ''-''"
    by (auto simp: is_digit_def chr_def)
  have "takeWhile is_digit (c # cs) = c # cs"
    using takeWhile_decimal [of "nat e"] dec by simp
  moreover have "digits_value (c # cs) = nat e"
    using digits_value_decimal [of "nat e"] dec by simp
  ultimately show ?thesis
    using False nosign dec by (simp add: leading_integer_def integer_string_def Let_def)
qed

lemma parseInt_integer_string:
  "safe_integer e \<Longrightarrow> parseInt (integer_string e) = IntVal e"
  by (simp add: parseInt_def leading_integer_integer_string to_number_def)

lemma leading_integer_None: "leading_integer s = None \<longleftrightarrow> \<not> starts_with_integer s"
proof (cases s)
  case Nil
  then show ?thesis by (simp add: leading_integer_def starts_with_integer_def)
next
  case (Cons c cs)
  have sign: "c = chr CHR ''+'' \<or> c = chr CHR ''-'' \<Longrightarrow> \<not> is_digit c"
    by (auto simp: is_digit_def chr_def)
  show ?thesis
  proof (cases "c = chr CHR ''+'' \<or> c = chr CHR ''-''")
    case True
    with sign Cons show ?thesis
      by (cases cs) (auto simp: leading_integer_def starts_with_integer_def Let_def)
  next
    case False
    with Cons show ?thesis
      by (auto simp: leading_integer_def starts_with_integer_def Let_def)
  qed
qed

lemma parseInt_NaN: "parseInt s = NaN \<longleftrightarrow> \<not> starts_with_integer s"
  using leading_integer_None [of s]
  by (auto simp: parseInt_def to_number_def split: option.splits)

lemma parseInt_Some:
  "leading_integer s = Some m \<Longrightarrow>
     parseInt s = (if safe_integer m then IntVal m else Beyond m)"
  by (simp add: parseInt_def to_number_def)

lemma parseInt_IntVal_safe: "parseInt s = IntVal n \<Longrightarrow> safe_integer n"
  by (auto simp: parseInt_def to_number_def split: option.splits if_splits)

lemma split_unit_formatted:
  assumes u: "\<forall>c\<in>set u. \<not> superscriptable c \<and> \<not> superscript_glyph c"
    and n: "\<forall>c\<in>set n. superscriptable c"
    and ne: "u @ n \<noteq> []"
  shows "split_unit (Some (unicode_superscript (u @ n))) =
           \<lparr>unit = Some u, exponent = (if n \<noteq> [] then parseInt n else IntVal 1)\<rparr>"
proof -
  have su: "unicode_superscript u = u"
    using u by (simp add: unicode_superscript_id)
  have nonempty: "unicode_superscript (u @ n) \<noteq> []"
    using ne by (simp add: unicode_superscript_def)
  have f: "filter (\<lambda>c. \<not> superscript_glyph c) (unicode_superscript (u @ n)) = u"
    using u n by (simp add: unicode_superscript_append su filter_superscript)
  have e: "exponent_digits (unicode_superscript (u @ n)) = n"
    using u n
    by (simp add: unicode_superscript_append su exponent_digits_append exponent_digits_plain
          exponent_digits_superscript)
  show ?thesis
    using nonempty by (simp add: split_unit_def truthy_def chars_of_def split_unit_loop_eq f e)
qed

subsection \<open>Formatting a unit\<close>

text \<open>
  Claim C5, as found in the code, for an exponent \<open>e\<close> that is a safe integer,
  \<open>\<bar>e\<bar> \<le> 2^53 - 1\<close>, so that its string is its decimal notation. \<^verbatim>\<open>unicode_unit\<close> returns
  the unit unchanged when the exponent is \<^verbatim>\<open>1\<close>. Otherwise it sends the whole string
  \<^verbatim>\<open>unit + exponent\<close> through \<^verbatim>\<open>unicode_superscript\<close>: the result is the unit with each of
  its characters \<^verbatim>\<open>0-9 + - .\<close> replaced by the superscript glyph, followed by the superscript
  encoding of the exponent's sign and digits. The characters of the unit are left as they
  are when the unit has none of those characters, which are the only ones that
  \<^verbatim>\<open>unicode_superscript\<close> rewrites; each of them becomes the glyph that \<^verbatim>\<open>split_unit\<close>
  reads back as that character. The encoding of the exponent is made of superscript
  glyphs only, and \<^verbatim>\<open>split_unit\<close> reads the exponent's decimal string back from it.
\<close>

theorem unicode_unit_format:
  assumes "safe_integer e"
  shows "unicode_unit bs u (IntVal e) =
           (if e = 1 then u
            else unicode_superscript u @ unicode_superscript (integer_string e)) \<and>
         ((\<forall>c\<in>set u. c \<notin> set (ascii ''0123456789+-.'')) \<longrightarrow>
            unicode_unit bs u (IntVal e) =
              (if e = 1 then u else u @ unicode_superscript (integer_string e))) \<and>
         (\<forall>c. c \<notin> set (ascii ''0123456789+-.'') \<longrightarrow> unicode_superscript [c] = [c]) \<and>
         (\<forall>c. c \<in> set (ascii ''0123456789+-.'') \<longrightarrow>
            list_all superscript_glyph (unicode_superscript [c]) \<and>
            exponent_digits (unicode_superscript [c]) = [c]) \<and>
         (\<forall>g\<in>set (unicode_superscript (integer_string e)). superscript_glyph g) \<and>
         exponent_digits (unicode_superscript (integer_string e)) = integer_string e"
proof -
  have n: "\<forall>c\<in>set (integer_string e). superscriptable c"
    by (simp add: integer_string_superscriptable)
  have a: "unicode_unit bs u (IntVal e) =
           (if e = 1 then u
            else unicode_superscript u @ unicode_superscript (integer_string e))"
    using assms by (simp add: unicode_unit_def unicode_superscript_append number_to_string_safe)
  have b: "(\<forall>c\<in>set u. c \<notin> set (ascii ''0123456789+-.'')) \<longrightarrow>
            unicode_unit bs u (IntVal e) =
              (if e = 1 then u else u @ unicode_superscript (integer_string e))"
    using a unicode_superscript_id [of u] by (simp add: superscriptable_chars)
  have c: "\<forall>c. c \<notin> set (ascii ''0123456789+-.'') \<longrightarrow> unicode_superscript [c] = [c]"
    using unicode_superscript_id by (simp add: superscriptable_chars)
  have d: "\<forall>g\<in>set (unicode_superscript (integer_string e)). superscript_glyph g"
    using glyphs_of_superscript [OF n] by blast
  have f: "exponent_digits (unicode_superscript (integer_string e)) = integer_string e"
    using n by (rule exponent_digits_superscript)
  have g: "\<forall>c. c \<in> set (ascii ''0123456789+-.'') \<longrightarrow>
            list_all superscript_glyph (unicode_superscript [c]) \<and>
            exponent_digits (unicode_superscript [c]) = [c]"
  proof (intro allI impI)
    fix c
    assume "c \<in> set (ascii ''0123456789+-.'')"
    then have sc: "\<forall>x\<in>set [c]. superscriptable x"
      by (simp add: superscriptable_chars)
    from glyphs_of_superscript [OF sc] exponent_digits_superscript [OF sc]
    show "list_all superscript_glyph (unicode_superscript [c]) \<and>
            exponent_digits (unicode_superscript [c]) = [c]"
      by (simp add: list_all_iff)
  qed
  from a b c d f g show ?thesis by blast
qed

text \<open>
  The examples of the specification: \<^verbatim>\<open>m\<close> with exponent 1, 3 and -2 gives \<^verbatim>\<open>m\<close>,
  \<^verbatim>\<open>m\<close> followed by \<^verbatim>\<open>U+00B3\<close>, and \<^verbatim>\<open>m\<close> followed by \<^verbatim>\<open>U+207B U+00B2\<close>.
\<close>

theorem unicode_unit_format_witness:
  "safe_integer 3 \<and> safe_integer (- 2) \<and> safe_integer 1 \<and>
   list_all (\<lambda>c. c \<notin> set (ascii ''0123456789+-.'')) (ascii ''m'') \<and>
   unicode_unit integer_string (ascii ''m'') (IntVal 1) = ascii ''m'' \<and>
   unicode_unit integer_string (ascii ''m'') (IntVal 3) = ascii ''m'' @ [0xB3] \<and>
   unicode_unit integer_string (ascii ''m'') (IntVal (- 2)) = ascii ''m'' @ [0x207B, 0xB2]"
  using unicode_unit_format [of 3 integer_string "ascii ''m''"]
    unicode_unit_format [of "- 2" integer_string "ascii ''m''"]
    unicode_unit_format [of 1 integer_string "ascii ''m''"]
  by (simp add: safe_integer_def ascii_def chr_def integer_string_def decimal.simps
        unicode_superscript_def unicode_superscript_dict_def)

text \<open>
  The unit is not always left as it is: the unit \<^verbatim>\<open>ft-us\<close> with exponent 2 comes out with
  its hyphen turned into the superscript minus \<^verbatim>\<open>U+207B\<close>.
\<close>

theorem unicode_unit_rewrites_unit:
  "unicode_unit integer_string (ascii ''ft-us'') (IntVal 2) =
     ascii ''ft'' @ [0x207B] @ ascii ''us'' @ [0xB2] \<and>
   unicode_unit integer_string (ascii ''ft-us'') (IntVal 2) \<noteq>
     ascii ''ft-us'' @ unicode_superscript (integer_string 2)"
  by (simp add: unicode_unit_def ascii_def chr_def number_to_string_def safe_integer_def
        integer_string_def decimal.simps unicode_superscript_def unicode_superscript_dict_def)

subsection \<open>Parsing a formatted unit\<close>

text \<open>
  Claim C2, as found in the code. For a base unit \<open>u\<close> that has no superscript glyph and
  none of the characters \<^verbatim>\<open>0-9 + - .\<close>, and a safe integer \<open>e \<noteq> 0\<close>, that is
  \<open>\<bar>e\<bar> \<le> 2^53 - 1\<close>, where \<open>u\<close> is not empty or \<open>e\<close> is not 1, parsing the formatted string
  gives back the unit and the exponent: \<^verbatim>\<open>split_unit(unicode_unit(u, e))\<close> is
  \<^verbatim>\<open>{unit: u, exponent: e}\<close>.
\<close>

theorem split_unit_unicode_unit:
  assumes u: "\<forall>c\<in>set u. \<not> superscriptable c \<and> \<not> superscript_glyph c"
    and e: "e \<noteq> 0" "safe_integer e"
    and ne: "u \<noteq> [] \<or> e \<noteq> 1"
  shows "split_unit (Some (unicode_unit bs u (IntVal e))) =
           \<lparr>unit = Some u, exponent = IntVal e\<rparr>"
proof (cases "e = 1")
  case True
  with ne have "u @ [] \<noteq> []" by simp
  from split_unit_formatted [OF u _ this] True show ?thesis
    by (simp add: unicode_unit_def unicode_superscript_id u)
next
  case False
  have n: "\<forall>c\<in>set (integer_string e). superscriptable c"
    by (simp add: integer_string_superscriptable)
  have "u @ integer_string e \<noteq> []"
    by (simp add: integer_string_nonempty)
  from split_unit_formatted [OF u n this] False e(2) show ?thesis
    by (simp add: unicode_unit_def number_to_string_safe integer_string_nonempty
          parseInt_integer_string)
qed

text \<open>The unit \<^verbatim>\<open>U+00B5 m\<close> (micrometre) with exponent -2 and the unit \<^verbatim>\<open>m\<close> with exponent 1.\<close>

theorem split_unit_unicode_unit_witness:
  "list_all (\<lambda>c. \<not> superscriptable c \<and> \<not> superscript_glyph c) [0xB5, 0x6D] \<and>
   (- 2::int) \<noteq> 0 \<and> safe_integer (- 2) \<and>
   split_unit (Some (unicode_unit integer_string [0xB5, 0x6D] (IntVal (- 2)))) =
     \<lparr>unit = Some [0xB5, 0x6D], exponent = IntVal (- 2)\<rparr> \<and>
   split_unit (Some (unicode_unit integer_string (ascii ''m'') (IntVal 1))) =
     \<lparr>unit = Some (ascii ''m''), exponent = IntVal 1\<rparr>"
  using split_unit_unicode_unit [of "[0xB5, 0x6D]" "- 2" integer_string]
    split_unit_unicode_unit [of "ascii ''m''" 1 integer_string]
  by (simp add: superscriptable_def superscript_glyph_def unicode_superscript_dict_def
        split_unit_dict_def chr_def ascii_def safe_integer_def)

text \<open>
  Without the two restrictions on the unit the round trip fails. The empty unit with
  exponent 1 is formatted as the empty string, which \<^verbatim>\<open>split_unit\<close> parses to the unit
  \<^verbatim>\<open>undefined\<close>. The unit \<^verbatim>\<open>ft-us\<close>, which has no digit and no superscript glyph, loses its
  hyphen to the exponent: with exponent 2 it is parsed back as the unit \<^verbatim>\<open>ftus\<close> with
  exponent -2.
\<close>

theorem split_unit_unicode_unit_fails:
  "list_all (\<lambda>c. \<not> is_digit c \<and> \<not> superscript_glyph c) ([]::jsstring) \<and> (1::int) \<noteq> 0 \<and>
   split_unit (Some (unicode_unit integer_string [] (IntVal 1))) =
     \<lparr>unit = None, exponent = IntVal 1\<rparr> \<and>
   split_unit (Some (unicode_unit integer_string [] (IntVal 1))) \<noteq>
     \<lparr>unit = Some [], exponent = IntVal 1\<rparr> \<and>
   list_all (\<lambda>c. \<not> is_digit c \<and> \<not> superscript_glyph c) (ascii ''ft-us'') \<and> (2::int) \<noteq> 0 \<and>
   split_unit (Some (unicode_unit integer_string (ascii ''ft-us'') (IntVal 2))) =
     \<lparr>unit = Some (ascii ''ftus''), exponent = IntVal (- 2)\<rparr> \<and>
   split_unit (Some (unicode_unit integer_string (ascii ''ft-us'') (IntVal 2))) \<noteq>
     \<lparr>unit = Some (ascii ''ft-us''), exponent = IntVal 2\<rparr>"
  by (simp add: unicode_unit_def split_unit_def truthy_def chars_of_def ascii_def chr_def
        is_digit_def superscript_glyph_def split_unit_dict_def number_to_string_def
        integer_string_def safe_integer_def to_number_def leading_integer_def
        decimal.simps unicode_superscript_def unicode_superscript_dict_def parseInt_def
        digits_value_def)

subsection \<open>The result of \<^verbatim>\<open>split_unit\<close>\<close>

text \<open>
  Claim C8, as found in the code. For every input, the unit of the result is \<^verbatim>\<open>undefined\<close>
  exactly when the input is empty or absent, and the exponent is then 1; the exponent is
  also 1 when the input has no superscript glyph, and otherwise it is what \<^verbatim>\<open>parseInt\<close>
  reads from the glyphs. That is \<^verbatim>\<open>NaN\<close>, not an integer, exactly when the glyphs do not
  begin with an optional sign followed by a digit. When they do, it is the integer they
  begin with if that is a safe integer, and beyond the safe integers it is that integer
  rounded to a Number, which is \<^verbatim>\<open>Infinity\<close> for a long run of digits. An exponent that
  the model gives as an exact integer is a safe integer.
\<close>

theorem split_unit_result:
  "(unit (split_unit s) = None \<longleftrightarrow> \<not> truthy s) \<and>
   (\<not> truthy s \<longrightarrow> exponent (split_unit s) = IntVal 1) \<and>
   (exponent_digits (chars_of s) = [] \<longrightarrow> exponent (split_unit s) = IntVal 1) \<and>
   (exponent_digits (chars_of s) \<noteq> [] \<longrightarrow>
      exponent (split_unit s) = parseInt (exponent_digits (chars_of s))) \<and>
   (exponent (split_unit s) = NaN \<longleftrightarrow>
      exponent_digits (chars_of s) \<noteq> [] \<and> \<not> starts_with_integer (exponent_digits (chars_of s))) \<and>
   (\<forall>m. leading_integer (exponent_digits (chars_of s)) = Some m \<longrightarrow>
      exponent (split_unit s) = (if safe_integer m then IntVal m else Beyond m)) \<and>
   (\<forall>n. exponent (split_unit s) = IntVal n \<longrightarrow> safe_integer n)"
proof (cases "truthy s")
  case True
  have empty: "leading_integer [] = None"
    by (simp add: leading_integer_def)
  show ?thesis
  proof (cases "exponent_digits (chars_of s) = []")
    case True
    with \<open>truthy s\<close> empty show ?thesis
      by (simp add: split_unit_def split_unit_loop_eq safe_integer_def)
  next
    case False
    with \<open>truthy s\<close> show ?thesis
      by (auto simp: split_unit_def split_unit_loop_eq parseInt_NaN parseInt_Some
            dest: parseInt_IntVal_safe)
  qed
next
  case False
  then have "chars_of s = []"
    by (cases s) (auto simp: truthy_def chars_of_def)
  with False show ?thesis
    by (simp add: split_unit_def exponent_digits_def leading_integer_def safe_integer_def)
qed

text \<open>
  The empty and the absent input, the units \<^verbatim>\<open>U+00B5 m U+00B3\<close> and \<^verbatim>\<open>U+00B5 m\<close>,
  \<^verbatim>\<open>m\<close> followed by a stray superscript point, and \<^verbatim>\<open>m\<close> followed by seventeen
  superscript nines, which is more than \<open>2^53\<close>.
\<close>

theorem split_unit_result_witness:
  "\<not> truthy (Some []) \<and> \<not> truthy None \<and>
   unit (split_unit (Some [])) = None \<and> exponent (split_unit (Some [])) = IntVal 1 \<and>
   unit (split_unit None) = None \<and> exponent (split_unit None) = IntVal 1 \<and>
   unit (split_unit (Some [0xB5, 0x6D, 0xB3])) \<noteq> None \<and>
   leading_integer (exponent_digits (chars_of (Some [0xB5, 0x6D, 0xB3]))) = Some 3 \<and>
   safe_integer 3 \<and>
   exponent (split_unit (Some [0xB5, 0x6D, 0xB3])) = IntVal 3 \<and>
   exponent_digits (chars_of (Some [0xB5, 0x6D])) = [] \<and>
   exponent (split_unit (Some [0xB5, 0x6D])) = IntVal 1 \<and>
   exponent (split_unit (Some [0x6D, 0x22C5])) = NaN \<and>
   leading_integer (exponent_digits (chars_of (Some [0x6D, 0x2079, 0x2079, 0x2079, 0x2079, 0x2079, 0x2079, 0x2079, 0x2079, 0x2079, 0x2079, 0x2079, 0x2079, 0x2079, 0x2079, 0x2079, 0x2079, 0x2079]))) =
     Some 99999999999999999 \<and>
   \<not> safe_integer 99999999999999999 \<and>
   exponent (split_unit (Some [0x6D, 0x2079, 0x2079, 0x2079, 0x2079, 0x2079, 0x2079, 0x2079, 0x2079, 0x2079, 0x2079, 0x2079, 0x2079, 0x2079, 0x2079, 0x2079, 0x2079, 0x2079])) = Beyond 99999999999999999"
proof -
  have nines: "leading_integer (exponent_digits (chars_of (Some [0x6D, 0x2079, 0x2079, 0x2079, 0x2079, 0x2079, 0x2079, 0x2079, 0x2079, 0x2079, 0x2079, 0x2079, 0x2079, 0x2079, 0x2079, 0x2079, 0x2079, 0x2079]))) =
     Some 99999999999999999"
    by (simp add: chars_of_def exponent_digits_def split_unit_dict_def chr_def
          leading_integer_def is_digit_def digits_value_def)
  have three: "leading_integer (exponent_digits (chars_of (Some [0xB5, 0x6D, 0xB3]))) = Some 3"
    by (simp add: chars_of_def exponent_digits_def split_unit_dict_def chr_def
          leading_integer_def is_digit_def digits_value_def)
  from split_unit_result [of "Some []"] split_unit_result [of None]
    split_unit_result [of "Some [0xB5, 0x6D, 0xB3]"] split_unit_result [of "Some [0xB5, 0x6D]"]
    split_unit_result [of "Some [0x6D, 0x22C5]"]
    split_unit_result [of "Some [0x6D, 0x2079, 0x2079, 0x2079, 0x2079, 0x2079, 0x2079, 0x2079, 0x2079, 0x2079, 0x2079, 0x2079, 0x2079, 0x2079, 0x2079, 0x2079, 0x2079, 0x2079]"] nines three
  show ?thesis
    by (simp add: truthy_def chars_of_def exponent_digits_def split_unit_dict_def chr_def
          starts_with_integer_def is_digit_def safe_integer_def parseInt_def to_number_def
          leading_integer_def digits_value_def)
qed

text \<open>
  The exponent is not always an integer: \<^verbatim>\<open>m\<close> followed by a stray superscript minus
  \<^verbatim>\<open>U+207B\<close> has the exponent \<^verbatim>\<open>parseInt('-')\<close>, which is \<^verbatim>\<open>NaN\<close>.
\<close>

theorem split_unit_exponent_not_integer:
  "split_unit (Some (ascii ''m'' @ [0x207B])) = \<lparr>unit = Some (ascii ''m''), exponent = NaN\<rparr> \<and>
   \<not> (\<exists>n. exponent (split_unit (Some (ascii ''m'' @ [0x207B]))) = IntVal n)"
  by (simp add: split_unit_def truthy_def chars_of_def ascii_def chr_def split_unit_dict_def
        parseInt_def leading_integer_def)

section \<open>Facts about the series renderer\<close>

text \<open>The definitions that the evaluation of a concrete render unfolds.\<close>

lemmas eval_defs =
  render_plot_def initial_state_def render_descr_def create_components_def Let_def
  split_unit_def truthy_def chars_of_def sample_descr_def sample_series_def ascii_def chr_def
  split_unit_dict_def parseInt_def is_digit_def digits_value_def resolve_unit_def
  scale_factors_def sample_externals_def sample_convert_def sample_pow_def sample_times_def
  series_plots_def effective_style_def color_abbreviations_def symbol_factories_def
  make_dataset_def axis_label_text_def unicode_unit_def make_scale_def pushed_plots_def
  number_to_string_def integer_string_def safe_integer_def to_number_def leading_integer_def
  unicode_superscript_def unicode_superscript_dict_def base_unit_def
  rescaled_points_def style_token_def enumerate_eq_zip power2_eq_square

lemma style_loop_Inl:
  "style_loop full cs acc = Inl e \<Longrightarrow> e = StyleParseError full"
  by (induction full cs acc rule: style_loop.induct) (auto split: if_splits option.splits)

lemma style_loop_fails_iff:
  "(\<exists>e. style_loop full cs acc = Inl e) \<longleftrightarrow> (\<exists>c\<in>set cs. \<not> style_token c)"
  by (induction full cs acc rule: style_loop.induct)
     (auto simp: style_token_def split: option.splits)

lemma effective_style_tokens:
  "(\<exists>c\<in>set (effective_style s). \<not> style_token c) \<longleftrightarrow> (\<exists>c\<in>set (chars_of s). \<not> style_token c)"
proof (cases "truthy s")
  case True
  then show ?thesis by (simp add: effective_style_def)
next
  case False
  then have "chars_of s = []" by (cases s) (auto simp: truthy_def chars_of_def)
  with False show ?thesis
    by (simp add: effective_style_def ascii_def chr_def style_token_def color_abbreviations_def)
qed

lemma series_plots_fails_iff:
  "(\<exists>e. series_plots ext sfx sfy item = Inl e) \<longleftrightarrow>
     (\<exists>c\<in>set (chars_of (series_style item)). \<not> style_token c)"
proof -
  have "(\<exists>e. series_plots ext sfx sfy item = Inl e) \<longleftrightarrow>
        (\<exists>e. style_loop (effective_style (series_style item)) (effective_style (series_style item))
               (False, None, None) = Inl e)"
    by (auto simp: series_plots_def Let_def split: sum.splits prod.splits)
  then show ?thesis
    by (simp add: style_loop_fails_iff effective_style_tokens)
qed

lemma series_plots_Inl:
  assumes "series_plots ext sfx sfy item = Inl e"
  shows "e = StyleParseError (chars_of (series_style item))"
proof -
  from assms have l: "style_loop (effective_style (series_style item))
      (effective_style (series_style item)) (False, None, None) = Inl e"
    by (auto simp: series_plots_def Let_def split: sum.splits prod.splits)
  then have e: "e = StyleParseError (effective_style (series_style item))"
    by (rule style_loop_Inl)
  from assms have "\<exists>c\<in>set (chars_of (series_style item)). \<not> style_token c"
    using series_plots_fails_iff [of ext sfx sfy item] by blast
  then have "truthy (series_style item)"
    by (cases "series_style item") (auto simp: truthy_def chars_of_def)
  with e show ?thesis by (simp add: effective_style_def)
qed

text \<open>
  Claim C4, as found in the code. A series whose style string is \<^verbatim>\<open>ko\<close> gets one plot, a
  scatter plot of black circles, and no line. A series whose style string is \<^verbatim>\<open>k-o\<close>
  gets a black line, then the black circles.
\<close>

theorem style_ko_plots:
  "(series_style item = Some (ascii ''ko'') \<longrightarrow>
      series_plots ext sfx sfy item =
        Inr ([Scatter (make_dataset ext sfx sfy item) Circle
                (Constant (ascii ''black'')) (Constant (ascii ''black''))],
             Some Circle)) \<and>
   (series_style item = Some (ascii ''k-o'') \<longrightarrow>
      series_plots ext sfx sfy item =
        Inr ([Line (make_dataset ext sfx sfy item) (Constant (ascii ''black'')),
              Scatter (make_dataset ext sfx sfy item) Circle
                (Constant (ascii ''black'')) (Constant (ascii ''black''))],
             Some Circle))"
  by (simp add: series_plots_def Let_def effective_style_def truthy_def chars_of_def ascii_def
        chr_def color_abbreviations_def symbol_factories_def)

text \<open>The sample series with the styles \<^verbatim>\<open>ko\<close> and \<^verbatim>\<open>k-o\<close>.\<close>

theorem style_ko_plots_witness:
  "series_style (sample_series (Some (ascii ''ko''))) = Some (ascii ''ko'') \<and>
   series_plots sample_externals (Some 1) (Some 1) (sample_series (Some (ascii ''ko''))) =
     Inr ([Scatter [(Some 1, Some 3), (Some 2, Some 4)] Circle
             (Constant (ascii ''black'')) (Constant (ascii ''black''))],
          Some Circle) \<and>
   series_style (sample_series (Some (ascii ''k-o''))) = Some (ascii ''k-o'') \<and>
   series_plots sample_externals (Some 1) (Some 1) (sample_series (Some (ascii ''k-o''))) =
     Inr ([Line [(Some 1, Some 3), (Some 2, Some 4)] (Constant (ascii ''black'')),
           Scatter [(Some 1, Some 3), (Some 2, Some 4)] Circle
             (Constant (ascii ''black'')) (Constant (ascii ''black''))],
          Some Circle)"
  using style_ko_plots [of "sample_series (Some (ascii ''ko''))" sample_externals "Some 1" "Some 1"]
    style_ko_plots [of "sample_series (Some (ascii ''k-o''))" sample_externals "Some 1" "Some 1"]
  by (simp add: sample_series_def ascii_def chr_def make_dataset_def enumerate_eq_zip
        sample_externals_def sample_times_def)

text \<open>The style \<^verbatim>\<open>ko\<close> gives no line: the render of such a series holds the circles only.\<close>

theorem style_ko_has_no_line:
  "map_sum id plots
     (render_plot sample_externals [sample_descr None None (Some (ascii ''ko''))] None) =
     Inr [Scatter [(Some 1, Some 3), (Some 2, Some 4)] Circle
            (Constant (ascii ''black'')) (Constant (ascii ''black''))] \<and>
   \<not> (\<exists>ps marker points.
        series_plots sample_externals (Some 1) (Some 1) (sample_series (Some (ascii ''ko''))) =
          Inr (ps, marker) \<and>
        Line points (Constant (ascii ''black'')) \<in> set ps)"
  by (simp add: eval_defs)

lemma style_loop_colors:
  "\<forall>c\<in>set cs. map_of color_abbreviations c \<noteq> None \<Longrightarrow>
     \<exists>col'. style_loop full cs (False, col, None) = Inr (False, col', None)"
proof (induction cs arbitrary: col)
  case Nil
  then show ?case by simp
next
  case (Cons c cs)
  then obtain v where v: "map_of color_abbreviations c = Some v" by auto
  then have "c \<noteq> chr CHR ''-''"
    by (auto simp: color_abbreviations_def chr_def split: if_splits)
  with v Cons show ?case by simp
qed

text \<open>
  Claim C6, as found in the code. A series whose style string is empty or absent is drawn
  with the default style \<^verbatim>\<open>k-\<close>: it gets one plot, a black line, and no symbol. A series
  gets neither a line nor a symbol when its style string is not empty and is made of
  colour codes only.
\<close>

theorem empty_style_plots:
  "(\<not> truthy (series_style item) \<longrightarrow>
      series_plots ext sfx sfy item =
        Inr ([Line (make_dataset ext sfx sfy item) (Constant (ascii ''black''))], None)) \<and>
   (truthy (series_style item) \<and>
    (\<forall>c\<in>set (chars_of (series_style item)). map_of color_abbreviations c \<noteq> None) \<longrightarrow>
      series_plots ext sfx sfy item = Inr ([], None))"
proof -
  have a: "\<not> truthy (series_style item) \<longrightarrow>
      series_plots ext sfx sfy item =
        Inr ([Line (make_dataset ext sfx sfy item) (Constant (ascii ''black''))], None)"
    by (simp add: series_plots_def Let_def effective_style_def ascii_def chr_def
          color_abbreviations_def symbol_factories_def)
  have b: "truthy (series_style item) \<and>
    (\<forall>c\<in>set (chars_of (series_style item)). map_of color_abbreviations c \<noteq> None) \<longrightarrow>
      series_plots ext sfx sfy item = Inr ([], None)"
  proof
    assume h: "truthy (series_style item) \<and>
      (\<forall>c\<in>set (chars_of (series_style item)). map_of color_abbreviations c \<noteq> None)"
    then obtain col' where
      "style_loop (chars_of (series_style item)) (chars_of (series_style item))
         (False, None, None) = Inr (False, col', None)"
      using style_loop_colors by blast
    with h show "series_plots ext sfx sfy item = Inr ([], None)"
      by (simp add: series_plots_def Let_def effective_style_def)
  qed
  from a b show ?thesis by blast
qed

text \<open>
  The sample series with an absent and with an empty style string, and with the style
  \<^verbatim>\<open>r\<close>.
\<close>

theorem empty_style_plots_witness:
  "\<not> truthy (series_style (sample_series None)) \<and>
   \<not> truthy (series_style (sample_series (Some []))) \<and>
   series_plots sample_externals (Some 1) (Some 1) (sample_series None) =
     Inr ([Line [(Some 1, Some 3), (Some 2, Some 4)] (Constant (ascii ''black''))], None) \<and>
   series_plots sample_externals (Some 1) (Some 1) (sample_series (Some [])) =
     Inr ([Line [(Some 1, Some 3), (Some 2, Some 4)] (Constant (ascii ''black''))], None) \<and>
   truthy (series_style (sample_series (Some (ascii ''r'')))) \<and>
   list_all (\<lambda>c. map_of color_abbreviations c \<noteq> None)
     (chars_of (series_style (sample_series (Some (ascii ''r''))))) \<and>
   series_plots sample_externals (Some 1) (Some 1) (sample_series (Some (ascii ''r''))) =
     Inr ([], None)"
  using empty_style_plots [of "sample_series None" sample_externals "Some 1" "Some 1"]
    empty_style_plots [of "sample_series (Some [])" sample_externals "Some 1" "Some 1"]
    empty_style_plots [of "sample_series (Some (ascii ''r''))" sample_externals "Some 1" "Some 1"]
  by (simp add: sample_series_def truthy_def chars_of_def ascii_def chr_def make_dataset_def
        enumerate_eq_zip sample_externals_def sample_times_def color_abbreviations_def)

text \<open>An empty or absent style string gives a line: the render holds one black line.\<close>

theorem empty_style_has_line:
  "map_sum id plots (render_plot sample_externals [sample_descr None None (Some [])] None) =
     Inr [Line [(Some 1, Some 3), (Some 2, Some 4)] (Constant (ascii ''black''))] \<and>
   map_sum id plots (render_plot sample_externals [sample_descr None None None] None) =
     Inr [Line [(Some 1, Some 3), (Some 2, Some 4)] (Constant (ascii ''black''))]"
  by (simp add: eval_defs)

lemma series_forEach_Inr:
  "series_forEach ext sfx sfy items st = Inr st' \<Longrightarrow>
     plots st' = plots st @ concat (map (pushed_plots ext sfx sfy) items) \<and>
     display_unit st' = display_unit st \<and>
     (\<forall>item\<in>set items. \<exists>r. series_plots ext sfx sfy item = Inr r)"
proof (induction items arbitrary: st)
  case Nil
  then show ?case by simp
next
  case (Cons item items)
  from Cons.prems obtain ps marker where
    sp: "series_plots ext sfx sfy item = Inr (ps, marker)" and
    rest: "series_forEach ext sfx sfy items
             (st\<lparr>plots := plots st @ ps, symbols := symbols st @ [marker]\<rparr>) = Inr st'"
    by (auto split: sum.splits)
  from Cons.IH [OF rest] sp show ?case
    by (simp add: pushed_plots_def)
qed

lemma render_descr_Inr:
  assumes "render_descr ext st d = Inr st'"
  shows "unit (split_unit (xunit d)) = unit (split_unit (yunit d)) \<and>
         display_unit st' = resolve_unit (display_unit st) (split_unit (xunit d)) \<and>
         (\<exists>sfx sfy.
            scale_factors ext (display_unit st') (split_unit (xunit d)) (split_unit (yunit d)) =
              Inr (sfx, sfy) \<and>
            plots st' = plots st @ concat (map (pushed_plots ext sfx sfy) (series d)) \<and>
            (\<forall>item\<in>set (series d). \<exists>r. series_plots ext sfx sfy item = Inr r))"
proof -
  let ?xu = "split_unit (xunit d)" and ?yu = "split_unit (yunit d)"
  let ?u = "resolve_unit (display_unit st) ?xu"
  from assms have eq: "unit ?xu = unit ?yu"
    by (auto simp: render_descr_def Let_def split: if_splits)
  with assms obtain sfx sfy where
    sf: "scale_factors ext ?u ?xu ?yu = Inr (sfx, sfy)" and
    fe: "series_forEach ext sfx sfy (series d) (create_components ext st d ?u ?xu ?yu) = Inr st'"
    by (auto simp: render_descr_def Let_def split: sum.splits)
  have u1: "display_unit (create_components ext st d ?u ?xu ?yu) = ?u"
    and p1: "plots (create_components ext st d ?u ?xu ?yu) = plots st"
    by (simp_all add: create_components_def)
  from series_forEach_Inr [OF fe] u1 p1 sf eq show ?thesis by auto
qed

lemma render_descr_mismatch:
  "unit (split_unit (xunit d)) \<noteq> unit (split_unit (yunit d)) \<Longrightarrow>
     render_descr ext st d = Inl UnitMismatchError"
  by (simp add: render_descr_def Let_def)

lemma render_loop_append:
  "render_loop ext st (pre @ post) =
     (case render_loop ext st pre of Inl e \<Rightarrow> Inl e | Inr mid \<Rightarrow> render_loop ext mid post)"
  by (induction pre arbitrary: st) (auto split: sum.splits)

lemma render_loop_plots:
  "render_loop ext st ds = Inr fin \<Longrightarrow> \<exists>new. plots fin = plots st @ new"
proof (induction ds arbitrary: st)
  case Nil
  then show ?case by simp
next
  case (Cons d ds)
  from Cons.prems obtain mid where
    d: "render_descr ext st d = Inr mid" and rest: "render_loop ext mid ds = Inr fin"
    by (auto split: sum.splits)
  from render_descr_Inr [OF d] obtain new1 where "plots mid = plots st @ new1" by blast
  moreover from Cons.IH [OF rest] obtain new2 where "plots fin = plots mid @ new2" by blast
  ultimately show ?case by simp
qed

lemma resolve_unit_truthy: "truthy u \<Longrightarrow> resolve_unit u xu = u"
  by (simp add: resolve_unit_def)

lemma render_loop_sticky:
  "render_loop ext st ds = Inr fin \<Longrightarrow> truthy (display_unit st) \<Longrightarrow>
     display_unit fin = display_unit st"
proof (induction ds arbitrary: st)
  case Nil
  then show ?case by simp
next
  case (Cons d ds)
  from Cons.prems obtain mid where
    d: "render_descr ext st d = Inr mid" and rest: "render_loop ext mid ds = Inr fin"
    by (auto split: sum.splits)
  from render_descr_Inr [OF d] Cons.prems(2) have "display_unit mid = display_unit st"
    by (simp add: resolve_unit_truthy)
  with Cons.IH [OF rest] Cons.prems(2) show ?case by simp
qed

lemma render_loop_all_equal:
  "render_loop ext st ds = Inr fin \<Longrightarrow>
     \<forall>d\<in>set ds. unit (split_unit (xunit d)) = unit (split_unit (yunit d))"
proof (induction ds arbitrary: st)
  case Nil
  then show ?case by simp
next
  case (Cons d ds)
  from Cons.prems obtain mid where
    d: "render_descr ext st d = Inr mid" and rest: "render_loop ext mid ds = Inr fin"
    by (auto split: sum.splits)
  from render_descr_Inr [OF d] Cons.IH [OF rest] show ?case by simp
qed

lemma render_loop_styles:
  "render_loop ext st ds = Inr fin \<Longrightarrow>
     \<forall>d\<in>set ds. \<forall>it\<in>set (series d). \<forall>c\<in>set (chars_of (series_style it)). style_token c"
proof (induction ds arbitrary: st)
  case Nil
  then show ?case by simp
next
  case (Cons d ds)
  from Cons.prems obtain mid where
    d: "render_descr ext st d = Inr mid" and rest: "render_loop ext mid ds = Inr fin"
    by (auto split: sum.splits)
  from render_descr_Inr [OF d] obtain sfx sfy where
    ok: "\<forall>it\<in>set (series d). \<exists>r. series_plots ext sfx sfy it = Inr r"
    by blast
  have "\<forall>it\<in>set (series d). \<forall>c\<in>set (chars_of (series_style it)). style_token c"
  proof
    fix it
    assume "it \<in> set (series d)"
    with ok obtain r where "series_plots ext sfx sfy it = Inr r" by blast
    then have "\<not> (\<exists>e. series_plots ext sfx sfy it = Inl e)" by simp
    then show "\<forall>c\<in>set (chars_of (series_style it)). style_token c"
      using series_plots_fails_iff [of ext sfx sfy it] by blast
  qed
  with Cons.IH [OF rest] show ?case by simp
qed

text \<open>
  Claim C7. The body of the loop over the series fails on a series exactly when its style
  string has a character that is not \<^verbatim>\<open>-\<close>, a colour code or a symbol code; the error is
  then the \<^verbatim>\<open>TypeError\<close> that carries the style string. It returns its plots exactly when
  every character of the style string is one of these. A render that succeeds has met
  such characters only.
\<close>

theorem style_error_iff:
  "(series_plots ext sfx sfy item = Inl (StyleParseError (chars_of (series_style item))) \<longleftrightarrow>
      (\<exists>c\<in>set (chars_of (series_style item)). \<not> style_token c)) \<and>
   ((\<exists>r. series_plots ext sfx sfy item = Inr r) \<longleftrightarrow>
      (\<forall>c\<in>set (chars_of (series_style item)). style_token c)) \<and>
   (render_plot ext ds unit_arg = Inr out \<longrightarrow>
      (\<forall>d\<in>set ds. \<forall>it\<in>set (series d). \<forall>c\<in>set (chars_of (series_style it)). style_token c))"
proof -
  have a: "series_plots ext sfx sfy item = Inl (StyleParseError (chars_of (series_style item))) \<longleftrightarrow>
      (\<exists>c\<in>set (chars_of (series_style item)). \<not> style_token c)"
    using series_plots_fails_iff [of ext sfx sfy item] series_plots_Inl [of ext sfx sfy item]
    by blast
  have "(\<exists>r. series_plots ext sfx sfy item = Inr r) \<longleftrightarrow> \<not> (\<exists>e. series_plots ext sfx sfy item = Inl e)"
    by (cases "series_plots ext sfx sfy item") auto
  then have b: "(\<exists>r. series_plots ext sfx sfy item = Inr r) \<longleftrightarrow>
      (\<forall>c\<in>set (chars_of (series_style item)). style_token c)"
    using series_plots_fails_iff [of ext sfx sfy item] by blast
  have c: "render_plot ext ds unit_arg = Inr out \<longrightarrow>
      (\<forall>d\<in>set ds. \<forall>it\<in>set (series d). \<forall>c\<in>set (chars_of (series_style it)). style_token c)"
    using render_loop_styles [of ext "initial_state unit_arg" ds out]
    by (simp add: render_plot_def)
  from a b c show ?thesis by blast
qed

text \<open>The styles \<^verbatim>\<open>k-x\<close>, which has the unknown character \<^verbatim>\<open>x\<close>, and \<^verbatim>\<open>r-+\<close>.\<close>

theorem style_error_iff_witness:
  "series_plots sample_externals (Some 1) (Some 1) (sample_series (Some (ascii ''k-x''))) =
     Inl (StyleParseError (ascii ''k-x'')) \<and>
   \<not> style_token (chr CHR ''x'') \<and>
   (\<exists>r. series_plots sample_externals (Some 1) (Some 1) (sample_series (Some (ascii ''r-+''))) =
      Inr r) \<and>
   list_all style_token (ascii ''r-+'') \<and>
   (\<exists>out. render_plot sample_externals [sample_descr None None (Some (ascii ''r-+''))] None =
      Inr out)"
proof -
  obtain out where
    run: "render_plot sample_externals [sample_descr None None (Some (ascii ''r-+''))] None =
      Inr out"
    by (simp add: eval_defs)
  from
    style_error_iff [of sample_externals "Some 1" "Some 1"
      "sample_series (Some (ascii ''k-x''))"]
    style_error_iff [of sample_externals "Some 1" "Some 1"
      "sample_series (Some (ascii ''r-+''))"
      "[sample_descr None None (Some (ascii ''r-+''))]" None out]
    run
  show ?thesis
    by (simp add: sample_descr_def sample_series_def chars_of_def ascii_def chr_def
          style_token_def color_abbreviations_def symbol_factories_def)
qed

text \<open>
  Claim C3, as found in the code. When the base units of the two axes of a descriptor
  differ, the render does not succeed: when the descriptors before that one render without
  error it fails with the \<^verbatim>\<open>TypeError\<close> on different base units, and otherwise it fails
  with the error of those descriptors. A render that succeeds has equal base units in
  every descriptor.
\<close>

theorem unit_mismatch_fails:
  "(unit (split_unit (xunit d)) \<noteq> unit (split_unit (yunit d)) \<longrightarrow>
      render_plot ext (pre @ d # post) unit_arg =
        (case render_plot ext pre unit_arg of
           Inl e \<Rightarrow> Inl e
         | Inr st \<Rightarrow> Inl UnitMismatchError)) \<and>
   (render_plot ext ds unit_arg = Inr out \<longrightarrow>
      (\<forall>d'\<in>set ds. unit (split_unit (xunit d')) = unit (split_unit (yunit d'))))"
  by (auto simp: render_plot_def render_loop_append render_descr_mismatch
        dest: render_loop_all_equal split: sum.splits)


text \<open>
  A descriptor in metres against seconds, after one that renders, and a render of metres
  against square metres.
\<close>

theorem unit_mismatch_fails_witness:
  "unit (split_unit (xunit (sample_descr (Some (ascii ''m'')) (Some (ascii ''s'')) None))) \<noteq>
     unit (split_unit (yunit (sample_descr (Some (ascii ''m'')) (Some (ascii ''s'')) None))) \<and>
   render_plot sample_externals
     ([sample_descr (Some (ascii ''m'')) (Some (ascii ''m'')) None] @
      sample_descr (Some (ascii ''m'')) (Some (ascii ''s'')) None # []) None =
     Inl UnitMismatchError \<and>
   (\<exists>out. render_plot sample_externals
      [sample_descr (Some (ascii ''m'')) (Some (ascii ''m'' @ [0xB2])) None] None = Inr out) \<and>
   list_all (\<lambda>d. unit (split_unit (xunit d)) = unit (split_unit (yunit d)))
     [sample_descr (Some (ascii ''m'')) (Some (ascii ''m'' @ [0xB2])) None]"
proof -
  let ?ok = "sample_descr (Some (ascii ''m'')) (Some (ascii ''m'')) None"
  let ?bad = "sample_descr (Some (ascii ''m'')) (Some (ascii ''s'')) None"
  let ?sq = "sample_descr (Some (ascii ''m'')) (Some (ascii ''m'' @ [0xB2])) None"
  have differ: "unit (split_unit (xunit ?bad)) \<noteq> unit (split_unit (yunit ?bad))"
    by (simp add: eval_defs)
  obtain st where pre: "render_plot sample_externals [?ok] None = Inr st"
    by (simp add: eval_defs)
  obtain out where run: "render_plot sample_externals [?sq] None = Inr out"
    by (simp add: eval_defs)
  from unit_mismatch_fails [of ?bad sample_externals "[?ok]" "[]" None "[?sq]" out] differ pre run
  show ?thesis by simp
qed

text \<open>
  The error is not always the one on different base units: when an earlier descriptor has
  a bad style string, the render fails on that string and never looks at the units of the
  later descriptor.
\<close>

theorem unit_mismatch_after_style_error:
  "unit (split_unit (xunit (sample_descr (Some (ascii ''m'')) (Some (ascii ''s'')) None))) \<noteq>
     unit (split_unit (yunit (sample_descr (Some (ascii ''m'')) (Some (ascii ''s'')) None))) \<and>
   render_plot sample_externals
     [sample_descr None None (Some (ascii ''x'')),
      sample_descr (Some (ascii ''m'')) (Some (ascii ''s'')) None] None =
     Inl (StyleParseError (ascii ''x'')) \<and>
   render_plot sample_externals
     [sample_descr None None (Some (ascii ''x'')),
      sample_descr (Some (ascii ''m'')) (Some (ascii ''s'')) None] None \<noteq>
     Inl UnitMismatchError"
  by (simp add: eval_defs)

lemma render_loop_unit_falsy:
  "render_loop ext st ds = Inr fin \<Longrightarrow> \<not> truthy (display_unit st) \<Longrightarrow>
     (case List.find (\<lambda>d. truthy (base_unit d)) ds of
        Some d \<Rightarrow> display_unit fin = base_unit d
      | None \<Rightarrow> \<not> truthy (display_unit fin))"
proof (induction ds arbitrary: st)
  case Nil
  then show ?case by simp
next
  case (Cons d ds)
  from Cons.prems obtain mid where
    d: "render_descr ext st d = Inr mid" and rest: "render_loop ext mid ds = Inr fin"
    by (auto split: sum.splits)
  from render_descr_Inr [OF d] Cons.prems(2) have mid: "display_unit mid = base_unit d"
    by (simp add: resolve_unit_def base_unit_def)
  show ?case
  proof (cases "truthy (base_unit d)")
    case True
    with render_loop_sticky [OF rest] mid show ?thesis by simp
  next
    case False
    with Cons.IH [OF rest] mid show ?thesis by simp
  qed
qed

text \<open>
  What the loop does with \<^verbatim>\<open>unit\<close>. In a render that succeeds, the display unit after any
  number of the descriptors is the unit the caller gave when that is a non-empty string.
  Otherwise it is the base unit of the x-axis of the first of these descriptors that has a
  non-empty one, and it is still empty or absent when none of them has one. Once the
  display unit is a non-empty string, the descriptors that follow do not change it.
\<close>

lemma display_unit_after_descriptors:
  assumes "render_plot ext (pre @ post) unit_arg = Inr out"
  shows "\<exists>st. render_plot ext pre unit_arg = Inr st \<and>
           (truthy unit_arg \<longrightarrow> display_unit st = unit_arg) \<and>
           (\<not> truthy unit_arg \<longrightarrow>
              (case List.find (\<lambda>d. truthy (base_unit d)) pre of
                 Some d \<Rightarrow> display_unit st = base_unit d
               | None \<Rightarrow> \<not> truthy (display_unit st))) \<and>
           (truthy (display_unit st) \<longrightarrow> display_unit out = display_unit st)"
proof -
  from assms obtain st where
    pre: "render_loop ext (initial_state unit_arg) pre = Inr st" and
    rest: "render_loop ext st post = Inr out"
    by (auto simp: render_plot_def render_loop_append split: sum.splits)
  have init: "display_unit (initial_state unit_arg :: 'a render_state) = unit_arg"
    by (simp add: initial_state_def)
  have a: "truthy unit_arg \<longrightarrow> display_unit st = unit_arg"
    using render_loop_sticky [OF pre] init by simp
  have b: "\<not> truthy unit_arg \<longrightarrow>
            (case List.find (\<lambda>d. truthy (base_unit d)) pre of
               Some d \<Rightarrow> display_unit st = base_unit d
             | None \<Rightarrow> \<not> truthy (display_unit st))"
    using render_loop_unit_falsy [OF pre] init by simp
  have c: "truthy (display_unit st) \<longrightarrow> display_unit out = display_unit st"
    using render_loop_sticky [OF rest] by simp
  from pre a b c show ?thesis
    by (auto simp: render_plot_def)
qed

text \<open>
  Claim C9 says that the display unit is the unit the caller gave and otherwise the base
  unit of the x-axis of the first descriptor, one choice for the whole call that no later
  descriptor changes; the comment in the loop says the same (the default is the unit of
  the first dataset). The code does not keep to it when the first descriptor has no unit.
  With no unit given and three descriptors, the first without a unit, the second in
  millimetres and the third in metres, the display unit is absent after the first
  descriptor, the second sets it to millimetres, and the third is rescaled to millimetres
  while the first is left as it is.
\<close>

theorem display_unit_set_by_later_descriptor:
  "base_unit (sample_descr None None None) = None \<and>
   map_sum id x_axis_label
     (render_plot sample_externals
        [sample_descr None None None,
         sample_descr (Some (ascii ''mm'')) (Some (ascii ''mm'')) None,
         sample_descr (Some (ascii ''m'')) (Some (ascii ''m'')) None] None) =
     Inr (Some (ascii ''x'')) \<and>
   map_sum id display_unit (render_plot sample_externals [sample_descr None None None] None) =
     Inr None \<and>
   map_sum id display_unit
     (render_plot sample_externals
        [sample_descr None None None,
         sample_descr (Some (ascii ''mm'')) (Some (ascii ''mm'')) None] None) =
     Inr (Some (ascii ''mm'')) \<and>
   map_sum id plots
     (render_plot sample_externals
        [sample_descr None None None,
         sample_descr (Some (ascii ''mm'')) (Some (ascii ''mm'')) None,
         sample_descr (Some (ascii ''m'')) (Some (ascii ''m'')) None] None) =
     Inr [Line [(Some 1, Some 3), (Some 2, Some 4)] (Constant (ascii ''black'')),
          Line [(Some 1, Some 3), (Some 2, Some 4)] (Constant (ascii ''black'')),
          Line [(Some 1000, Some 3000), (Some 2000, Some 4000)] (Constant (ascii ''black''))]"
  by (simp add: eval_defs)

lemma pushed_plots_dataset:
  "p \<in> set (pushed_plots ext sfx sfy item) \<Longrightarrow> dataset p = make_dataset ext sfx sfy item"
  by (auto simp: pushed_plots_def series_plots_def Let_def
        split: sum.splits prod.splits if_splits option.splits)

lemma make_dataset_rescaled:
  assumes "length (series_x item) = length (series_y item)"
  shows "make_dataset ext sfx sfy item = rescaled_points ext sfx sfy item"
proof (rule nth_equalityI)
  show "length (make_dataset ext sfx sfy item) = length (rescaled_points ext sfx sfy item)"
    using assms by (simp add: make_dataset_def rescaled_points_def)
next
  fix i
  assume "i < length (make_dataset ext sfx sfy item)"
  then have i: "i < length (series_y item)"
    by (simp add: make_dataset_def)
  with assms show "make_dataset ext sfx sfy item ! i = rescaled_points ext sfx sfy item ! i"
    by (simp add: make_dataset_def rescaled_points_def nth_enumerate_eq)
qed

lemma scale_factors_truthy:
  "u \<noteq> [] \<Longrightarrow> convert ext (unit xu) u = Some r \<Longrightarrow>
     scale_factors ext (Some u) xu yu = Inr (pow ext r (exponent xu), pow ext r (exponent yu))"
  by (simp add: scale_factors_def)

lemma scale_factors_falsy:
  "\<not> truthy v \<Longrightarrow> scale_factors ext v xu yu = Inr (one ext, one ext)"
  by (cases v) (auto simp: scale_factors_def truthy_def)

text \<open>
  Claim C1. Let a render succeed, let \<open>u\<close> be the non-empty display unit after the descriptor
  \<open>d\<close>, and \<open>r\<close> the ratio that \<^verbatim>\<open>convert\<close> gives from the base unit of \<open>d\<close> to \<open>u\<close>. Then
  the plots of the series of \<open>d\<close> are in the result, in their order, built with the factors
  \<open>r\<close> to the power of the x-exponent and \<open>r\<close> to the power of the y-exponent; and every plot
  of a series with as many x-values as y-values holds the points of the series with every
  x-coordinate multiplied by the first factor and every y-coordinate by the second.
\<close>

theorem render_plot_rescales:
  assumes run: "render_plot ext (pre @ d # post) unit_arg = Inr out"
    and upto: "render_plot ext (pre @ [d]) unit_arg = Inr st"
    and u: "display_unit st = Some u" "u \<noteq> []"
    and r: "convert ext (unit (split_unit (xunit d))) u = Some r"
  shows "(\<exists>before after.
            plots out =
              before @
              concat (map (pushed_plots ext (pow ext r (exponent (split_unit (xunit d))))
                             (pow ext r (exponent (split_unit (yunit d))))) (series d)) @
              after) \<and>
         (\<forall>item\<in>set (series d). length (series_x item) = length (series_y item) \<longrightarrow>
            (\<forall>p\<in>set (pushed_plots ext (pow ext r (exponent (split_unit (xunit d))))
                        (pow ext r (exponent (split_unit (yunit d)))) item).
               dataset p =
                 rescaled_points ext (pow ext r (exponent (split_unit (xunit d))))
                   (pow ext r (exponent (split_unit (yunit d)))) item))"
proof -
  let ?sfx = "pow ext r (exponent (split_unit (xunit d)))"
  let ?sfy = "pow ext r (exponent (split_unit (yunit d)))"
  from upto obtain mid where
    mid: "render_loop ext (initial_state unit_arg) pre = Inr mid" and
    step: "render_descr ext mid d = Inr st"
    by (auto simp: render_plot_def render_loop_append split: sum.splits)
  from run mid step have rest: "render_loop ext st post = Inr out"
    by (simp add: render_plot_def render_loop_append)
  from render_descr_Inr [OF step] u r
  have "plots st = plots mid @ concat (map (pushed_plots ext ?sfx ?sfy) (series d))"
    by (auto simp: scale_factors_truthy)
  moreover from render_loop_plots [OF rest] obtain new where "plots out = plots st @ new" ..
  ultimately have a: "\<exists>before after.
      plots out = before @ concat (map (pushed_plots ext ?sfx ?sfy) (series d)) @ after"
    by auto
  have b: "\<forall>item\<in>set (series d). length (series_x item) = length (series_y item) \<longrightarrow>
      (\<forall>p\<in>set (pushed_plots ext ?sfx ?sfy item). dataset p = rescaled_points ext ?sfx ?sfy item)"
    by (simp add: pushed_plots_dataset make_dataset_rescaled)
  from a b show ?thesis by blast
qed

text \<open>
  A series in millimetres against square millimetres, shown in metres: the ratio is
  \<open>1/1000\<close>, the x-values are multiplied by it and the y-values by its square.
\<close>

theorem render_plot_rescales_witness:
  "\<exists>out st.
     render_plot sample_externals
       ([] @ sample_descr (Some (ascii ''mm'')) (Some (ascii ''mm'' @ [0xB2])) (Some (ascii ''k-o'')) # [])
       (Some (ascii ''m'')) = Inr out \<and>
     render_plot sample_externals
       ([] @ [sample_descr (Some (ascii ''mm'')) (Some (ascii ''mm'' @ [0xB2])) (Some (ascii ''k-o''))])
       (Some (ascii ''m'')) = Inr st \<and>
     display_unit st = Some (ascii ''m'') \<and>
     convert sample_externals
       (unit (split_unit (xunit (sample_descr (Some (ascii ''mm'')) (Some (ascii ''mm'' @ [0xB2]))
          (Some (ascii ''k-o''))))))
       (ascii ''m'') = Some (Some (1 / 1000)) \<and>
     plots out =
       [Line [(Some (1 / 1000), Some (3 / 1000000)), (Some (2 / 1000), Some (4 / 1000000))]
          (Constant (ascii ''black'')),
        Scatter [(Some (1 / 1000), Some (3 / 1000000)), (Some (2 / 1000), Some (4 / 1000000))]
          Circle (Constant (ascii ''black'')) (Constant (ascii ''black''))] \<and>
     list_all (\<lambda>p. dataset p =
         rescaled_points sample_externals (Some (1 / 1000)) (Some (1 / 1000000))
           (sample_series (Some (ascii ''k-o''))))
       (plots out)"
proof -
  let ?d = "sample_descr (Some (ascii ''mm'')) (Some (ascii ''mm'' @ [0xB2])) (Some (ascii ''k-o''))"
  obtain out where run: "render_plot sample_externals ([] @ ?d # []) (Some (ascii ''m'')) = Inr out"
    and p: "plots out =
       [Line [(Some (1 / 1000), Some (3 / 1000000)), (Some (2 / 1000), Some (4 / 1000000))]
          (Constant (ascii ''black'')),
        Scatter [(Some (1 / 1000), Some (3 / 1000000)), (Some (2 / 1000), Some (4 / 1000000))]
          Circle (Constant (ascii ''black'')) (Constant (ascii ''black''))]"
    by (simp add: eval_defs)
  obtain st where upto: "render_plot sample_externals ([] @ [?d]) (Some (ascii ''m'')) = Inr st"
    and u: "display_unit st = Some (ascii ''m'')"
    by (simp add: eval_defs)
  have ne: "ascii ''m'' \<noteq> []" by (simp add: ascii_def)
  have r: "convert sample_externals (unit (split_unit (xunit ?d))) (ascii ''m'') = Some (Some (1 / 1000))"
    by (simp add: eval_defs)
  from render_plot_rescales [OF run upto u ne r] run upto u r p show ?thesis
    by (simp add: eval_defs)
qed


lemma render_loop_unscaled:
  "render_loop ext st ds = Inr fin \<Longrightarrow> \<not> truthy (display_unit fin) \<Longrightarrow>
     \<not> truthy (display_unit st) \<and>
     plots fin =
       plots st @ concat (map (\<lambda>d. concat (map (pushed_plots ext (one ext) (one ext)) (series d))) ds)"
proof (induction ds arbitrary: st)
  case Nil
  then show ?case by simp
next
  case (Cons d ds)
  from Cons.prems obtain mid where
    d: "render_descr ext st d = Inr mid" and rest: "render_loop ext mid ds = Inr fin"
    by (auto split: sum.splits)
  from Cons.IH [OF rest Cons.prems(2)] have
    midu: "\<not> truthy (display_unit mid)" and
    p: "plots fin = plots mid @
          concat (map (\<lambda>d. concat (map (pushed_plots ext (one ext) (one ext)) (series d))) ds)"
    by simp_all
  from render_descr_Inr [OF d] midu have
    "plots mid = plots st @ concat (map (pushed_plots ext (one ext) (one ext)) (series d))"
    by (auto simp: scale_factors_falsy)
  moreover have "\<not> truthy (display_unit st)"
  proof
    assume t: "truthy (display_unit st)"
    with render_descr_Inr [OF d] have "display_unit mid = display_unit st"
      by (simp add: resolve_unit_truthy)
    with t midu show False by simp
  qed
  ultimately show ?case using p by simp
qed

lemma rescaled_points_one:
  "\<forall>v. times ext (one ext) v = v \<Longrightarrow>
     rescaled_points ext (one ext) (one ext) item = zip (series_x item) (series_y item)"
  by (simp add: rescaled_points_def map_idI)

text \<open>
  Claim C10. Let a render succeed with a display unit that is absent or empty at the end,
  and let multiplying by the Number \<^verbatim>\<open>1\<close> change no Number. Then the two scale factors of
  every descriptor are \<^verbatim>\<open>1\<close>, the plots of the result are the plots of all series built
  with these factors, and every plot of a series with as many x-values as y-values holds
  the points of the series unchanged.
\<close>

theorem render_plot_unscaled:
  assumes run: "render_plot ext ds unit_arg = Inr out"
    and falsy: "\<not> truthy (display_unit out)"
    and one: "\<forall>v. times ext (one ext) v = v"
  shows "(\<forall>pre d post st. ds = pre @ d # post \<and> render_plot ext pre unit_arg = Inr st \<longrightarrow>
            scale_factors ext (resolve_unit (display_unit st) (split_unit (xunit d)))
              (split_unit (xunit d)) (split_unit (yunit d)) = Inr (one ext, one ext)) \<and>
         plots out =
           concat (map (\<lambda>d. concat (map (pushed_plots ext (one ext) (one ext)) (series d))) ds) \<and>
         (\<forall>d\<in>set ds. \<forall>item\<in>set (series d).
            length (series_x item) = length (series_y item) \<longrightarrow>
            (\<forall>p\<in>set (pushed_plots ext (one ext) (one ext) item).
               dataset p = zip (series_x item) (series_y item)))"
proof -
  from run have loop: "render_loop ext (initial_state unit_arg) ds = Inr out"
    by (simp add: render_plot_def)
  have a: "\<forall>pre d post st. ds = pre @ d # post \<and> render_plot ext pre unit_arg = Inr st \<longrightarrow>
            scale_factors ext (resolve_unit (display_unit st) (split_unit (xunit d)))
              (split_unit (xunit d)) (split_unit (yunit d)) = Inr (one ext, one ext)"
  proof (intro allI impI, elim conjE)
    fix pre d post st
    assume ds: "ds = pre @ d # post" and pre: "render_plot ext pre unit_arg = Inr st"
    from loop ds pre have "render_loop ext st (d # post) = Inr out"
      by (simp add: render_plot_def render_loop_append)
    then obtain mid where
      d: "render_descr ext st d = Inr mid" and rest: "render_loop ext mid post = Inr out"
      by (auto split: sum.splits)
    from render_loop_unscaled [OF rest falsy] have "\<not> truthy (display_unit mid)" by simp
    with render_descr_Inr [OF d]
    have "\<not> truthy (resolve_unit (display_unit st) (split_unit (xunit d)))" by simp
    then show "scale_factors ext (resolve_unit (display_unit st) (split_unit (xunit d)))
              (split_unit (xunit d)) (split_unit (yunit d)) = Inr (one ext, one ext)"
      by (rule scale_factors_falsy)
  qed
  have b: "plots out =
           concat (map (\<lambda>d. concat (map (pushed_plots ext (one ext) (one ext)) (series d))) ds)"
    using render_loop_unscaled [OF loop falsy] by (simp add: initial_state_def)
  have c: "\<forall>d\<in>set ds. \<forall>item\<in>set (series d).
            length (series_x item) = length (series_y item) \<longrightarrow>
            (\<forall>p\<in>set (pushed_plots ext (one ext) (one ext) item).
               dataset p = zip (series_x item) (series_y item))"
    using one by (simp add: pushed_plots_dataset make_dataset_rescaled rescaled_points_one)
  from a b c show ?thesis by blast
qed

text \<open>A descriptor without units, rendered with no unit given.\<close>

theorem render_plot_unscaled_witness:
  "(\<forall>v. times sample_externals (one sample_externals) v = v) \<and>
   (\<exists>out. render_plot sample_externals [sample_descr None None (Some (ascii ''k-o''))] None =
             Inr out \<and>
          \<not> truthy (display_unit out) \<and>
          plots out =
            [Line [(Some 1, Some 3), (Some 2, Some 4)] (Constant (ascii ''black'')),
             Scatter [(Some 1, Some 3), (Some 2, Some 4)] Circle
               (Constant (ascii ''black'')) (Constant (ascii ''black''))]) \<and>
   scale_factors sample_externals
     (resolve_unit None (split_unit (xunit (sample_descr None None (Some (ascii ''k-o''))))))
     (split_unit (xunit (sample_descr None None (Some (ascii ''k-o'')))))
     (split_unit (yunit (sample_descr None None (Some (ascii ''k-o''))))) =
     Inr (Some 1, Some 1)"
proof -
  let ?d = "sample_descr None None (Some (ascii ''k-o''))"
  have one: "\<forall>v. times sample_externals (one sample_externals) v = v"
    by (simp add: sample_externals_def sample_times_def split: option.splits)
  obtain out where run: "render_plot sample_externals [?d] None = Inr out"
    and falsy: "\<not> truthy (display_unit out)"
    by (simp add: eval_defs)
  obtain st where pre: "render_plot sample_externals [] None = Inr st"
    and st: "display_unit st = None"
    by (simp add: eval_defs)
  from render_plot_unscaled [OF run falsy one] have
    sf: "\<forall>pre d post st. [?d] = pre @ d # post \<and> render_plot sample_externals pre None = Inr st \<longrightarrow>
            scale_factors sample_externals
              (resolve_unit (display_unit st) (split_unit (xunit d)))
              (split_unit (xunit d)) (split_unit (yunit d)) =
            Inr (one sample_externals, one sample_externals)"
    and p: "plots out =
           concat (map (\<lambda>d. concat (map (pushed_plots sample_externals (one sample_externals)
             (one sample_externals)) (series d))) [?d])"
    by blast+
  from sf pre have "scale_factors sample_externals
              (resolve_unit (display_unit st) (split_unit (xunit ?d)))
              (split_unit (xunit ?d)) (split_unit (yunit ?d)) =
            Inr (one sample_externals, one sample_externals)"
    by (metis append_Nil)
  with st have s1: "scale_factors sample_externals
              (resolve_unit None (split_unit (xunit ?d)))
              (split_unit (xunit ?d)) (split_unit (yunit ?d)) = Inr (Some 1, Some 1)"
    by (simp add: sample_externals_def)
  from p have p': "plots out =
            [Line [(Some 1, Some 3), (Some 2, Some 4)] (Constant (ascii ''black'')),
             Scatter [(Some 1, Some 3), (Some 2, Some 4)] Circle
               (Constant (ascii ''black'')) (Constant (ascii ''black''))]"
    by (simp add: eval_defs)
  from one run falsy p' s1 show ?thesis by blast
qed

end
